theory Spec2Isabelle
  imports Complex_Main "HOL-Library.Multiset" "HOL-Library.AList"
begin

section \<open>The checkpoint verifier of \<^verbatim>\<open>verify_models.py\<close>\<close>

text \<open>
  The script has two functions. \<^verbatim>\<open>verify_model_file(filepath, model_name)\<close> looks at one
  weight file (does it exist, how large is it, does \<^verbatim>\<open>torch.load\<close> read it, is the loaded
  object a \<^verbatim>\<open>dict\<close>), prints what it finds and returns a boolean. \<^verbatim>\<open>main()\<close> calls it
  on a catalogue of five files and prints a summary.

  Both are embedded as functions of the file system that return the sequence of
  observable events (calls into \<^verbatim>\<open>os.path\<close> and \<^verbatim>\<open>torch\<close>, printed lines) together
  with either the returned value or the exception that leaves the function.
\<close>

subsection \<open>Exceptions, loaded objects, files\<close>

text \<open>
  An exception is an instance of (a subclass of) Python's \<^verbatim>\<open>Exception\<close>; all the code
  reads of it is \<^verbatim>\<open>str(e)\<close>. Interrupts and interpreter exits (\<^verbatim>\<open>KeyboardInterrupt\<close>,
  \<^verbatim>\<open>SystemExit\<close>), which are not \<^verbatim>\<open>Exception\<close>s, are outside the model.
\<close>

datatype exception = Exception (str: string)

text \<open>
  What \<^verbatim>\<open>torch.load\<close> can hand back: a \<^verbatim>\<open>dict\<close> (keys in insertion order, values of
  an arbitrary type \<open>'v\<close>), or something that is not a \<^verbatim>\<open>dict\<close>: a single tensor or a list.
  Keys are strings, as the names of a state dictionary are.
\<close>

datatype 'v pyobj = Dict "(string \<times> 'v) list" | Tensor 'v | PyList "'v list"

text \<open>
  A file is seen through two library calls only: \<^verbatim>\<open>os.path.getsize\<close>, its size in bytes,
  and \<^verbatim>\<open>torch.load\<close>, which either raises or returns an object. The file system maps a path
  to the file there, if any. It does not change while the script runs: the script is
  sequential and only reads.
\<close>

datatype 'v weight_file = Weight_file (getsize: nat) (load: "exception + 'v pyobj")

type_synonym 'v filesystem = "string \<rightharpoonup> 'v weight_file"

definition os_path_exists :: "'v filesystem \<Rightarrow> string \<Rightarrow> bool" where
  "os_path_exists fs filepath = (fs filepath \<noteq> None)"

definition os_path_getsize :: "'v filesystem \<Rightarrow> string \<Rightarrow> exception + nat" where
  "os_path_getsize fs filepath =
     (case fs filepath of
        None \<Rightarrow> Inl (Exception (''[Errno 2] No such file or directory: '' @ filepath))
      | Some f \<Rightarrow> Inr (getsize f))"

definition torch_load :: "'v filesystem \<Rightarrow> string \<Rightarrow> exception + 'v pyobj" where
  "torch_load fs filepath =
     (case fs filepath of
        None \<Rightarrow> Inl (Exception (''[Errno 2] No such file or directory: '' @ filepath))
      | Some f \<Rightarrow> load f)"

subsection \<open>Printed lines and events\<close>

text \<open>
  One constructor for each \<^verbatim>\<open>print\<close> of the source, carrying the values it interpolates.
  A \<^verbatim>\<open>print\<close> whose text starts or ends with a newline is the blank line \<open>Blank\<close> before
  or after the line proper. Printing itself is taken to succeed.
\<close>

datatype line =
    Blank
  | Rule
  | Title
  | Verifying string
  | File_not_found string
  | File_path string
  | Size_MB rat
  | File_is_loadable
  | Number_of_layers nat
  | First_5_layers
  | Layer_name string
  | Size_appropriate string
  | Size_unusual string
  | Not_state_dict
  | Error_loading string
  | Summary_title
  | Status string bool
  | Verified int int
  | All_ready
  | Use_notebook
  | Missing_or_invalid int
  | Train_missing
  | No_valid_models
  | Please_train

datatype event =
    Os_path_exists string
  | Os_path_getsize string
  | Torch_load string
  | Print line

subsection \<open>The text of a line\<close>

text \<open>The pictographs of the source, as the bytes of their UTF-8 encoding.\<close>

definition cross_mark :: string where
  "cross_mark = [CHR 0xE2, CHR 0x9D, CHR 0x8C]"

definition check_mark :: string where
  "check_mark = [CHR 0xE2, CHR 0x9C, CHR 0x85]"

definition warning_sign :: string where
  "warning_sign = [CHR 0xE2, CHR 0x9A, CHR 0xA0, CHR 0xEF, CHR 0xB8, CHR 0x8F]"

definition file_folder :: string where
  "file_folder = [CHR 0xF0, CHR 0x9F, CHR 0x93, CHR 0x81]"

definition floppy_disk :: string where
  "floppy_disk = [CHR 0xF0, CHR 0x9F, CHR 0x92, CHR 0xBE]"

definition bar_chart :: string where
  "bar_chart = [CHR 0xF0, CHR 0x9F, CHR 0x93, CHR 0x8A]"

definition magnifier :: string where
  "magnifier = [CHR 0xF0, CHR 0x9F, CHR 0x94, CHR 0x8D]"

definition clipboard :: string where
  "clipboard = [CHR 0xF0, CHR 0x9F, CHR 0x93, CHR 0x8B]"

definition party_popper :: string where
  "party_popper = [CHR 0xF0, CHR 0x9F, CHR 0x8E, CHR 0x89]"

text \<open>Decimal digits of a natural number, and \<^verbatim>\<open>str\<close> of a Python integer.\<close>

fun digits :: "nat \<Rightarrow> string" where
  "digits n =
     (if n < 10 then [char_of (48 + n)]
      else digits (n div 10) @ [char_of (48 + n mod 10)])"

definition str_int :: "int \<Rightarrow> string" where
  "str_int i = (if i < 0 then CHR ''-'' # digits (nat (- i)) else digits (nat i))"

text \<open>
  \<^verbatim>\<open>{model_name:15s}\<close>: the name, padded on the right with spaces to fifteen characters
  (a longer name is left as it is).
\<close>

definition pad15 :: "string \<Rightarrow> string" where
  "pad15 s = s @ replicate (15 - length s) CHR '' ''"

text \<open>
  The text of each line. \<open>format_2f\<close> stands for the format \<^verbatim>\<open>:.2f\<close> of a number, which
  belongs to Python and not to the script.
\<close>

fun text_of :: "(rat \<Rightarrow> string) \<Rightarrow> line \<Rightarrow> string" where
  "text_of format_2f Blank = []"
| "text_of format_2f Rule = replicate 60 CHR ''=''"
| "text_of format_2f Title = magnifier @ '' SiteLenz Model Verification Tool''"
| "text_of format_2f (Verifying model_name) = ''Verifying: '' @ model_name"
| "text_of format_2f (File_not_found filepath) = cross_mark @ '' File not found: '' @ filepath"
| "text_of format_2f (File_path filepath) = file_folder @ '' File: '' @ filepath"
| "text_of format_2f (Size_MB size_mb) =
     floppy_disk @ '' Size: '' @ format_2f size_mb @ '' MB''"
| "text_of format_2f File_is_loadable = check_mark @ '' File is loadable''"
| "text_of format_2f (Number_of_layers num_layers) =
     bar_chart @ '' Number of layers: '' @ digits num_layers"
| "text_of format_2f First_5_layers = magnifier @ '' First 5 layers:''"
| "text_of format_2f (Layer_name name) = ''   - '' @ name"
| "text_of format_2f (Size_appropriate model_name) =
     check_mark @ '' File size appropriate for '' @ model_name"
| "text_of format_2f (Size_unusual model_name) =
     warning_sign @ ''  File size unusual for '' @ model_name"
| "text_of format_2f Not_state_dict =
     warning_sign @ ''  Checkpoint is not a state dictionary''"
| "text_of format_2f (Error_loading msg) = cross_mark @ '' Error loading file: '' @ msg"
| "text_of format_2f Summary_title = clipboard @ '' VERIFICATION SUMMARY''"
| "text_of format_2f (Status model_name is_valid) =
     pad15 model_name @ '' : '' @
       (if is_valid then check_mark @ '' Valid'' else cross_mark @ '' Missing/Invalid'')"
| "text_of format_2f (Verified n_valid n_total) =
     str_int n_valid @ ''/'' @ str_int n_total @ '' models verified successfully''"
| "text_of format_2f All_ready = party_popper @ '' All models are ready to use!''"
| "text_of format_2f Use_notebook =
     ''You can now use load_trained_models.ipynb for inference''"
| "text_of format_2f (Missing_or_invalid n) =
     warning_sign @ ''  '' @ str_int n @ '' model(s) missing or invalid''"
| "text_of format_2f Train_missing = ''Train the missing models or check file paths''"
| "text_of format_2f No_valid_models = cross_mark @ '' No valid models found''"
| "text_of format_2f Please_train = ''Please train your models first''"

subsection \<open>\<^verbatim>\<open>verify_model_file\<close>\<close>

text \<open>
  The size in megabytes is \<^verbatim>\<open>os.path.getsize(filepath) / (1024 * 1024)\<close>, a Python float.
  It is modelled by the exact quotient, a rational number. The code only compares it with
  the integers 10, 20, 40, 60, 200, 250, 300 and 400, and for these comparisons the float
  and the exact quotient agree on every byte count: below \<open>2 ^ 53\<close> bytes the division by
  \<open>2 ^ 20\<close> is exact, and from \<open>2 ^ 53\<close> bytes on both values are at least \<open>2 ^ 33\<close>,
  above every bound. Only the two decimals printed by \<^verbatim>\<open>:.2f\<close> depend on rounding, and
  they are left to \<open>format_2f\<close>.
\<close>

text \<open>Line 22.\<close>

definition file_size_mb :: "nat \<Rightarrow> rat" where
  "file_size_mb bytes = of_nat bytes / (1024 * 1024)"

text \<open>Lines 43 to 54: the chain that chooses the line about the size.\<close>

definition size_verdict :: "string \<Rightarrow> rat \<Rightarrow> line" where
  "size_verdict model_name size_mb =
     (if model_name = ''VGG16'' \<and> size_mb > 400 then Size_appropriate ''VGG16''
      else if model_name = ''ResNet18'' \<and> 40 < size_mb \<and> size_mb < 60
        then Size_appropriate ''ResNet18''
      else if model_name = ''MobileNetV2'' \<and> 10 < size_mb \<and> size_mb < 20
        then Size_appropriate ''MobileNetV2''
      else if model_name = ''AlexNet'' \<and> 200 < size_mb \<and> size_mb < 250
        then Size_appropriate ''AlexNet''
      else if model_name = ''ViT'' \<and> 300 < size_mb \<and> size_mb < 400
        then Size_appropriate ''ViT''
      else Size_unusual model_name)"

text \<open>
  Lines 28 to 59, the body of the \<^verbatim>\<open>try\<close>: the events it produces, and the exception it
  raises or the value it returns.
\<close>

definition try_body ::
  "'v filesystem \<Rightarrow> string \<Rightarrow> string \<Rightarrow> rat \<Rightarrow> event list \<times> (exception + bool)" where
  "try_body fs filepath model_name size_mb =
     (case torch_load fs filepath of
        Inl e \<Rightarrow> ([Torch_load filepath], Inl e)
      | Inr checkpoint \<Rightarrow>
          (case checkpoint of
             Dict items \<Rightarrow>
               (let num_layers = length items;
                    layer_names = take 5 (map fst items)
                in ([Torch_load filepath, Print File_is_loadable,
                     Print (Number_of_layers num_layers), Print First_5_layers]
                    @ map (\<lambda>name. Print (Layer_name name)) layer_names
                    @ [Print (size_verdict model_name size_mb)],
                    Inr True))
           | _ \<Rightarrow>
               ([Torch_load filepath, Print File_is_loadable, Print Not_state_dict],
                Inr False)))"

text \<open>
  The whole function. \<^verbatim>\<open>os.path.getsize\<close> is called outside the \<^verbatim>\<open>try\<close>, so an
  exception of its own would leave the function; the handler \<^verbatim>\<open>except Exception as e\<close>
  turns an exception of the body into a printed line and the value \<^verbatim>\<open>False\<close>.
\<close>

definition verify_model_file ::
  "'v filesystem \<Rightarrow> string \<Rightarrow> string \<Rightarrow> event list \<times> (exception + bool)" where
  "verify_model_file fs filepath model_name =
     (let banner = [Print Blank, Print Rule, Print (Verifying model_name), Print Rule,
                    Os_path_exists filepath]
      in if \<not> os_path_exists fs filepath
         then (banner @ [Print (File_not_found filepath)], Inr False)
         else
           (case os_path_getsize fs filepath of
              Inl e \<Rightarrow> (banner @ [Os_path_getsize filepath], Inl e)
            | Inr bytes \<Rightarrow>
                (let size_mb = file_size_mb bytes;
                     sized = banner @ [Os_path_getsize filepath, Print (File_path filepath),
                                       Print (Size_MB size_mb)]
                 in case try_body fs filepath model_name size_mb of
                      (evs, Inl e) \<Rightarrow> (sized @ evs @ [Print (Error_loading (str e))], Inr False)
                    | (evs, Inr b) \<Rightarrow> (sized @ evs, Inr b))))"

subsection \<open>\<^verbatim>\<open>main\<close>\<close>

definition models_to_check :: "(string \<times> string) list" where
  "models_to_check =
     [(''VGG16'', ''vgg16/vgg16_weights.pth''),
      (''ResNet18'', ''resnet18/resnet18_weights.pth''),
      (''MobileNetV2'', ''mobilenet/mobilenet_weights.pth''),
      (''AlexNet'', ''alexnet/alexnet_weights.pth''),
      (''ViT'', ''vit/vit_weights.pth'')]"

text \<open>
  Lines 81 and 82: the loop over the catalogue. \<open>results\<close> is the dictionary built so far,
  in insertion order; \<^verbatim>\<open>results[model_name] = ...\<close> replaces the value of a key that is
  there and appends a new key otherwise, which is \<^const>\<open>AList.update\<close>.
\<close>

fun check_each ::
  "'v filesystem \<Rightarrow> (string \<times> string) list \<Rightarrow> (string \<times> bool) list
     \<Rightarrow> event list \<times> (exception + (string \<times> bool) list)" where
  "check_each fs [] results = ([], Inr results)"
| "check_each fs ((model_name, filepath) # rest) results =
     (case verify_model_file fs filepath model_name of
        (evs, Inl e) \<Rightarrow> (evs, Inl e)
      | (evs, Inr is_valid) \<Rightarrow>
          (case check_each fs rest (AList.update model_name is_valid results) of
             (evs', r) \<Rightarrow> (evs @ evs', r)))"

text \<open>Lines 89 and 90. \<^verbatim>\<open>sum\<close> of booleans counts \<^verbatim>\<open>True\<close> as 1.\<close>

definition valid_count :: "(string \<times> bool) list \<Rightarrow> int" where
  "valid_count results = sum_list (map (\<lambda>(model_name, is_valid). if is_valid then 1 else 0) results)"

definition total_count :: "(string \<times> bool) list \<Rightarrow> int" where
  "total_count results = int (length results)"

text \<open>Lines 98 to 106: the three branches of the final message.\<close>

datatype readiness = All_models_ready | Some_models_missing | No_models_valid

definition readiness :: "(string \<times> bool) list \<Rightarrow> readiness" where
  "readiness results =
     (if valid_count results = total_count results then All_models_ready
      else if valid_count results > 0 then Some_models_missing
      else No_models_valid)"

definition readiness_lines :: "(string \<times> bool) list \<Rightarrow> line list" where
  "readiness_lines results =
     (case readiness results of
        All_models_ready \<Rightarrow> [Blank, All_ready, Use_notebook]
      | Some_models_missing \<Rightarrow>
          [Blank, Missing_or_invalid (total_count results - valid_count results), Train_missing]
      | No_models_valid \<Rightarrow> [Blank, No_valid_models, Please_train])"

text \<open>Lines 85 to 108: everything printed after the loop.\<close>

definition summary :: "(string \<times> bool) list \<Rightarrow> line list" where
  "summary results =
     [Blank, Rule, Summary_title, Rule]
     @ map (\<lambda>(model_name, is_valid). Status model_name is_valid) results
     @ [Blank, Verified (valid_count results) (total_count results)]
     @ readiness_lines results
     @ [Blank, Rule, Blank]"

definition main :: "'v filesystem \<Rightarrow> event list \<times> (exception + unit)" where
  "main fs =
     (let opening = [Print Blank, Print Title, Print Blank]
      in case check_each fs models_to_check [] of
           (evs, Inl e) \<Rightarrow> (opening @ evs, Inl e)
         | (evs, Inr results) \<Rightarrow> (opening @ evs @ map Print (summary results), Inr ()))"

subsection \<open>The expected size ranges as a table\<close>

text \<open>
  The specification speaks of an expected size range per label, where the code has the
  chain of tests of \<^const>\<open>size_verdict\<close>. This is that table, with the bounds of lines 43
  to 52: a lower bound, and an upper bound where the code tests one. A size is within a
  range when it is strictly between the bounds.
\<close>

definition expected_size_range :: "string \<rightharpoonup> rat \<times> rat option" where
  "expected_size_range =
     [''VGG16'' \<mapsto> (400, None),
      ''ResNet18'' \<mapsto> (40, Some 60),
      ''MobileNetV2'' \<mapsto> (10, Some 20),
      ''AlexNet'' \<mapsto> (200, Some 250),
      ''ViT'' \<mapsto> (300, Some 400)]"

definition within_range :: "rat \<times> rat option \<Rightarrow> rat \<Rightarrow> bool" where
  "within_range r size_mb =
     (fst r < size_mb \<and> (case snd r of None \<Rightarrow> True | Some upper \<Rightarrow> size_mb < upper))"

subsection \<open>Sample file systems\<close>

text \<open>
  A file system to run the model on: a ResNet18 checkpoint of 47 MB with six entries, a
  MobileNetV2 checkpoint of 5 MB, a VGG16 checkpoint of exactly 400 MB, an AlexNet file that
  \<^verbatim>\<open>torch.load\<close> rejects, a ViT file that holds a single tensor, and a 50 MB checkpoint
  of an architecture outside the catalogue. Tensors are left abstract (the unit type).
\<close>

definition sample_fs :: "unit filesystem" where
  "sample_fs =
     [''resnet18/resnet18_weights.pth'' \<mapsto>
        Weight_file 49283072
          (Inr (Dict [(''conv1.weight'', ()), (''bn1.weight'', ()), (''bn1.bias'', ()),
                      (''bn1.running_mean'', ()), (''bn1.running_var'', ()),
                      (''fc.weight'', ())])),
      ''mobilenet/mobilenet_weights.pth'' \<mapsto>
        Weight_file 5242880 (Inr (Dict [(''features.0.0.weight'', ())])),
      ''vgg16/vgg16_weights.pth'' \<mapsto>
        Weight_file 419430400 (Inr (Dict [(''features.0.weight'', ())])),
      ''alexnet/alexnet_weights.pth'' \<mapsto>
        Weight_file 0 (Inl (Exception ''Ran out of input'')),
      ''vit/vit_weights.pth'' \<mapsto> Weight_file 1024 (Inr (Tensor ())),
      ''densenet/densenet_weights.pth'' \<mapsto>
        Weight_file 52428800 (Inr (Dict [(''features.conv0.weight'', ())]))]"

section \<open>Basic facts\<close>

subsection \<open>The four ways through \<^const>\<open>verify_model_file\<close>\<close>

lemmas verify_defs = verify_model_file_def os_path_exists_def os_path_getsize_def
  try_body_def torch_load_def Let_def

lemma verify_missing:
  "fs filepath = None \<Longrightarrow>
   verify_model_file fs filepath model_name =
     ([Print Blank, Print Rule, Print (Verifying model_name), Print Rule,
       Os_path_exists filepath, Print (File_not_found filepath)], Inr False)"
  by (simp add: verify_defs)

lemma verify_load_error:
  "fs filepath = Some f \<Longrightarrow> load f = Inl e \<Longrightarrow>
   verify_model_file fs filepath model_name =
     ([Print Blank, Print Rule, Print (Verifying model_name), Print Rule,
       Os_path_exists filepath, Os_path_getsize filepath, Print (File_path filepath),
       Print (Size_MB (file_size_mb (getsize f))),
       Torch_load filepath, Print (Error_loading (str e))], Inr False)"
  by (simp add: verify_defs)

lemma verify_dict:
  "fs filepath = Some f \<Longrightarrow> load f = Inr (Dict items) \<Longrightarrow>
   verify_model_file fs filepath model_name =
     ([Print Blank, Print Rule, Print (Verifying model_name), Print Rule,
       Os_path_exists filepath, Os_path_getsize filepath, Print (File_path filepath),
       Print (Size_MB (file_size_mb (getsize f))),
       Torch_load filepath, Print File_is_loadable,
       Print (Number_of_layers (length items)), Print First_5_layers]
      @ map (\<lambda>name. Print (Layer_name name)) (take 5 (map fst items))
      @ [Print (size_verdict model_name (file_size_mb (getsize f)))], Inr True)"
  by (simp add: verify_defs)

lemma verify_not_dict:
  "fs filepath = Some f \<Longrightarrow> load f = Inr obj \<Longrightarrow> \<forall>items. obj \<noteq> Dict items \<Longrightarrow>
   verify_model_file fs filepath model_name =
     ([Print Blank, Print Rule, Print (Verifying model_name), Print Rule,
       Os_path_exists filepath, Os_path_getsize filepath, Print (File_path filepath),
       Print (Size_MB (file_size_mb (getsize f))),
       Torch_load filepath, Print File_is_loadable, Print Not_state_dict], Inr False)"
  by (cases obj) (simp_all add: verify_defs)

lemma verify_returns:
  "\<exists>evs is_valid. verify_model_file fs filepath model_name = (evs, Inr is_valid)"
proof (cases "fs filepath")
  case None
  then show ?thesis by (auto simp: verify_missing)
next
  case (Some f)
  show ?thesis
  proof (cases "load f")
    case (Inl e)
    with Some show ?thesis by (auto simp: verify_load_error)
  next
    case (Inr obj)
    show ?thesis
    proof (cases "\<exists>items. obj = Dict items")
      case True
      with Some Inr show ?thesis by (auto simp: verify_dict)
    next
      case False
      with Some Inr show ?thesis by (auto simp: verify_not_dict)
    qed
  qed
qed

lemma verify_dict_last:
  "fs filepath = Some f \<Longrightarrow> load f = Inr (Dict items) \<Longrightarrow>
   last (fst (verify_model_file fs filepath model_name)) =
     Print (size_verdict model_name (file_size_mb (getsize f)))"
  by (simp add: verify_dict)

subsection \<open>The chain of size tests and the table of ranges\<close>

lemma size_verdict_table:
  "size_verdict model_name size_mb =
     (case expected_size_range model_name of
        None \<Rightarrow> Size_unusual model_name
      | Some r \<Rightarrow> if within_range r size_mb then Size_appropriate model_name
                  else Size_unusual model_name)"
  by (simp add: size_verdict_def expected_size_range_def within_range_def)

subsection \<open>The loop of \<^const>\<open>main\<close>\<close>

lemma check_each_returns: "\<exists>evs rs. check_each fs ms results = (evs, Inr rs)"
proof (induction ms arbitrary: results)
  case Nil
  show ?case by simp
next
  case (Cons m ms)
  obtain model_name filepath where m: "m = (model_name, filepath)" by (cases m)
  obtain evs b where v: "verify_model_file fs filepath model_name = (evs, Inr b)"
    using verify_returns by blast
  obtain evs' rs where "check_each fs ms (AList.update model_name b results) = (evs', Inr rs)"
    using Cons.IH by blast
  with m v show ?case by simp
qed

lemma update_fresh: "k \<notin> fst ` set al \<Longrightarrow> AList.update k v al = al @ [(k, v)]"
  by (induction al) auto

lemma check_each_length:
  "check_each fs ms results = (evs, Inr rs) \<Longrightarrow> distinct (map fst ms) \<Longrightarrow>
   \<forall>m \<in> set ms. fst m \<notin> fst ` set results \<Longrightarrow>
   length rs = length results + length ms"
proof (induction ms arbitrary: results evs)
  case Nil
  then show ?case by simp
next
  case (Cons m ms)
  obtain model_name filepath where m: "m = (model_name, filepath)" by (cases m)
  obtain e1 b where v: "verify_model_file fs filepath model_name = (e1, Inr b)"
    using verify_returns by blast
  obtain e2 r2 where c: "check_each fs ms (AList.update model_name b results) = (e2, r2)"
    by (cases "check_each fs ms (AList.update model_name b results)")
  from Cons.prems(1) m v c have r2: "r2 = Inr rs" by simp
  have fresh: "model_name \<notin> fst ` set results" using Cons.prems(3) m by simp
  have "length rs = length (AList.update model_name b results) + length ms"
  proof (rule Cons.IH)
    show "check_each fs ms (AList.update model_name b results) = (e2, Inr rs)"
      using c r2 by simp
    show "distinct (map fst ms)" using Cons.prems(2) by simp
    show "\<forall>m\<in>set ms. fst m \<notin> fst ` set (AList.update model_name b results)"
      using Cons.prems(2,3) m by (auto simp: dom_update)
  qed
  then show ?case using fresh by (simp add: update_fresh)
qed

lemma main_total_count:
  "\<exists>evs rs. check_each fs models_to_check [] = (evs, Inr rs) \<and> total_count rs = 5"
proof -
  obtain evs rs where c: "check_each fs models_to_check [] = (evs, Inr rs)"
    using check_each_returns by blast
  have "length rs = length ([] :: (string \<times> bool) list) + length models_to_check"
    by (rule check_each_length [OF c]) (simp_all add: models_to_check_def)
  then have "total_count rs = 5" by (simp add: total_count_def models_to_check_def)
  with c show ?thesis by blast
qed

subsection \<open>Counting\<close>

lemma valid_count_mset:
  "valid_count results =
     sum_mset (image_mset (\<lambda>(model_name, is_valid). if is_valid then 1 else 0) (mset results))"
  by (simp add: valid_count_def sum_mset_sum_list [symmetric])

lemma valid_count_bounds: "0 \<le> valid_count results \<and> valid_count results \<le> total_count results"
  by (induction results) (auto simp: valid_count_def total_count_def)

section \<open>The claims\<close>

subsection \<open>The summary of \<^const>\<open>main\<close>\<close>

text \<open>
  \<^bold>\<open>C1\<close>: on the results that the loop of \<^const>\<open>main\<close> builds, the readiness is
  ``all models are ready'' exactly when \<open>valid_count = total_count\<close> and
  \<open>total_count > 0\<close>, and the line ``All models are ready to use!'' is in the summary
  exactly then. Line 98 tests the equality of the counts only; the second condition holds
  because the catalogue has five entries, so the sequence of results is never empty.
\<close>

theorem all_ready_iff_all_valid:
  assumes "snd (check_each fs models_to_check []) = Inr results"
  shows "(readiness results = All_models_ready) =
           (valid_count results = total_count results \<and> 0 < total_count results)
         \<and> (All_ready \<in> set (summary results)) =
           (valid_count results = total_count results \<and> 0 < total_count results)
         \<and> results \<noteq> []"
proof -
  obtain evs where c: "check_each fs models_to_check [] = (evs, Inr results)"
    using assms by (cases "check_each fs models_to_check []") simp
  have "length results = length ([] :: (string \<times> bool) list) + length models_to_check"
    by (rule check_each_length [OF c]) (simp_all add: models_to_check_def)
  then have five: "length results = 5" by (simp add: models_to_check_def)
  then have pos: "0 < total_count results" by (simp add: total_count_def)
  have a: "(readiness results = All_models_ready) = (valid_count results = total_count results)"
    by (simp add: readiness_def)
  have b: "(All_ready \<in> set (summary results)) = (readiness results = All_models_ready)"
    by (cases "readiness results") (auto simp: summary_def readiness_lines_def)
  from five have ne: "results \<noteq> []" by auto
  from a b pos ne show ?thesis by simp
qed

text \<open>
  Scenario 6 of the specification, on \<^const>\<open>sample_fs\<close>: three of the five checkpoints are
  valid, the AlexNet file does not load and the ViT file is a single tensor.
\<close>

theorem all_ready_iff_all_valid_witness:
  "snd (check_each sample_fs models_to_check []) =
     Inr [(''VGG16'', True), (''ResNet18'', True), (''MobileNetV2'', True),
          (''AlexNet'', False), (''ViT'', False)]
   \<and> valid_count [(''VGG16'', True), (''ResNet18'', True), (''MobileNetV2'', True),
                    (''AlexNet'', False), (''ViT'', False)] = 3
   \<and> total_count [(''VGG16'', True), (''ResNet18'', True), (''MobileNetV2'', True),
                    (''AlexNet'', False), (''ViT'', False)] = 5
   \<and> readiness [(''VGG16'', True), (''ResNet18'', True), (''MobileNetV2'', True),
                  (''AlexNet'', False), (''ViT'', False)] = Some_models_missing"
proof -
  have r: "snd (check_each sample_fs models_to_check []) =
     Inr [(''VGG16'', True), (''ResNet18'', True), (''MobileNetV2'', True),
          (''AlexNet'', False), (''ViT'', False)]"
    by (simp add: models_to_check_def sample_fs_def verify_defs)
  show ?thesis
    using all_ready_iff_all_valid [OF r] r
    by (simp add: valid_count_def total_count_def readiness_def)
qed

subsection \<open>What \<^const>\<open>verify_model_file\<close> returns\<close>


text \<open>
  \<^bold>\<open>C3\<close>: the function returns \<^verbatim>\<open>True\<close> if and only if the file exists and
  \<^verbatim>\<open>torch.load\<close> returns a \<^verbatim>\<open>dict\<close>. In particular a \<^verbatim>\<open>True\<close> result means that the
  file exists and was loaded.
\<close>

theorem valid_iff_exists_loads_dict:
  "(snd (verify_model_file fs filepath model_name) = Inr True) =
     (os_path_exists fs filepath \<and> (\<exists>items. torch_load fs filepath = Inr (Dict items)))"
proof (cases "fs filepath")
  case None
  then show ?thesis by (simp add: verify_missing os_path_exists_def)
next
  case (Some f)
  show ?thesis
  proof (cases "load f")
    case (Inl e)
    with Some show ?thesis by (simp add: verify_load_error os_path_exists_def torch_load_def)
  next
    case (Inr obj)
    show ?thesis
    proof (cases "\<exists>items. obj = Dict items")
      case True
      with Some Inr show ?thesis by (auto simp: verify_dict os_path_exists_def torch_load_def)
    next
      case False
      with Some Inr show ?thesis by (simp add: verify_not_dict os_path_exists_def torch_load_def)
    qed
  qed
qed

subsection \<open>The size of a valid checkpoint\<close>

text \<open>
  \<^bold>\<open>C4, as stated\<close>: for a label with no expected range the size classification is a
  third value, ``unknown'', neither the within-range nor the out-of-range verdict. The code
  prints one of two lines only. For the label DenseNet, which has no range, the last line
  is ``File size unusual for DenseNet'': the line a MobileNetV2 file gets when its size is
  out of range.
\<close>

theorem no_range_label_same_as_out_of_range:
  "expected_size_range ''DenseNet'' = None
   \<and> last (fst (verify_model_file sample_fs ''densenet/densenet_weights.pth'' ''DenseNet''))
       = Print (Size_unusual ''DenseNet'')
   \<and> expected_size_range ''MobileNetV2'' = Some (10, Some 20)
   \<and> \<not> within_range (10, Some 20) (file_size_mb 52428800)
   \<and> last (fst (verify_model_file sample_fs ''densenet/densenet_weights.pth'' ''MobileNetV2''))
       = Print (Size_unusual ''MobileNetV2'')"
  by (simp add: sample_fs_def expected_size_range_def within_range_def file_size_mb_def
      verify_defs size_verdict_def)

text \<open>
  \<^bold>\<open>C4, amended\<close>: for every existing file that loads to a \<^verbatim>\<open>dict\<close>, when no
  expected range is defined for the label, the size line is the warning ``File size unusual
  for'' the label, the same line as for a size out of range; the result is \<^verbatim>\<open>True\<close>.
\<close>

theorem no_range_label_is_unusual:
  assumes "fs filepath = Some f" and "load f = Inr (Dict items)"
    and "expected_size_range model_name = None"
  shows "last (fst (verify_model_file fs filepath model_name)) = Print (Size_unusual model_name)
         \<and> snd (verify_model_file fs filepath model_name) = Inr True"
  using assms by (simp add: verify_dict size_verdict_table)

text \<open>
  The amended claim at the 50 MB DenseNet checkpoint of \<^const>\<open>sample_fs\<close>.
\<close>

theorem no_range_label_is_unusual_witness:
  "expected_size_range ''DenseNet'' = None
   \<and> last (fst (verify_model_file sample_fs ''densenet/densenet_weights.pth'' ''DenseNet''))
       = Print (Size_unusual ''DenseNet'')
   \<and> snd (verify_model_file sample_fs ''densenet/densenet_weights.pth'' ''DenseNet'') = Inr True"
  using no_range_label_is_unusual [of sample_fs "''densenet/densenet_weights.pth''"
      "Weight_file 52428800 (Inr (Dict [(''features.conv0.weight'', ())]))"
      "[(''features.conv0.weight'', ())]" "''DenseNet''"]
  by (simp add: sample_fs_def expected_size_range_def)

text \<open>
  \<^bold>\<open>C5\<close>: for every existing file that loads to a \<^verbatim>\<open>dict\<close> the result is
  \<^verbatim>\<open>True\<close> whatever the size; when the label has an expected range and the size is not
  within it, the last line is the warning ``File size unusual for'' the label.
\<close>

theorem valid_whatever_the_size:
  assumes "fs filepath = Some f" and "load f = Inr (Dict items)"
  shows "snd (verify_model_file fs filepath model_name) = Inr True
         \<and> (\<forall>r. expected_size_range model_name = Some r
                  \<and> \<not> within_range r (file_size_mb (getsize f))
               \<longrightarrow> last (fst (verify_model_file fs filepath model_name))
                     = Print (Size_unusual model_name))"
  using assms by (simp add: verify_dict size_verdict_table)

text \<open>
  Scenario 3 of the specification: a MobileNetV2 checkpoint of 5 MB, expected range
  (10, 20).
\<close>

theorem valid_whatever_the_size_witness:
  "expected_size_range ''MobileNetV2'' = Some (10, Some 20)
   \<and> \<not> within_range (10, Some 20) (file_size_mb 5242880)
   \<and> file_size_mb 5242880 = 5
   \<and> snd (verify_model_file sample_fs ''mobilenet/mobilenet_weights.pth'' ''MobileNetV2'')
       = Inr True
   \<and> last (fst (verify_model_file sample_fs ''mobilenet/mobilenet_weights.pth'' ''MobileNetV2''))
       = Print (Size_unusual ''MobileNetV2'')"
  using valid_whatever_the_size [of sample_fs "''mobilenet/mobilenet_weights.pth''"
      "Weight_file 5242880 (Inr (Dict [(''features.0.0.weight'', ())]))"
      "[(''features.0.0.weight'', ())]" "''MobileNetV2''"]
  by (simp add: sample_fs_def expected_size_range_def within_range_def file_size_mb_def)

subsection \<open>The three ways to fail\<close>

text \<open>
  \<^bold>\<open>C6\<close>: when the path does not exist, the function prints the banner and
  ``File not found'' and returns \<^verbatim>\<open>False\<close>. Nothing else happens: no size is
  measured and printed, \<^verbatim>\<open>torch.load\<close> is not called, no ``File is loadable'', number of
  layers or layer name is printed.
\<close>

theorem missing_file_result:
  assumes "\<not> os_path_exists fs filepath"
  shows "verify_model_file fs filepath model_name =
           ([Print Blank, Print Rule, Print (Verifying model_name), Print Rule,
             Os_path_exists filepath, Print (File_not_found filepath)], Inr False)
         \<and> Os_path_getsize filepath \<notin> set (fst (verify_model_file fs filepath model_name))
         \<and> Torch_load filepath \<notin> set (fst (verify_model_file fs filepath model_name))"
  using assms by (simp add: os_path_exists_def verify_missing)

text \<open>
  A path that \<^const>\<open>sample_fs\<close> does not have.
\<close>

theorem missing_file_result_witness:
  "\<not> os_path_exists sample_fs ''models/vgg16.pth''
   \<and> verify_model_file sample_fs ''models/vgg16.pth'' ''VGG16'' =
       ([Print Blank, Print Rule, Print (Verifying ''VGG16''), Print Rule,
         Os_path_exists ''models/vgg16.pth'', Print (File_not_found ''models/vgg16.pth'')],
        Inr False)"
  using missing_file_result [of sample_fs "''models/vgg16.pth''" "''VGG16''"]
  by (simp add: sample_fs_def os_path_exists_def)

text \<open>
  \<^bold>\<open>C7\<close>: when the file exists and \<^verbatim>\<open>torch.load\<close> raises, the function prints the
  size, then the line ``Error loading file:'' followed by the message of the exception,
  and returns \<^verbatim>\<open>False\<close>; there is no ``File is loadable'' line. The printed
  diagnostic is never empty, even if the message is.
\<close>

theorem load_failure_result:
  assumes "fs filepath = Some f" and "load f = Inl e"
  shows "verify_model_file fs filepath model_name =
           ([Print Blank, Print Rule, Print (Verifying model_name), Print Rule,
             Os_path_exists filepath, Os_path_getsize filepath, Print (File_path filepath),
             Print (Size_MB (file_size_mb (getsize f))),
             Torch_load filepath, Print (Error_loading (str e))], Inr False)
         \<and> text_of format_2f (Error_loading (str e))
             = cross_mark @ '' Error loading file: '' @ str e
         \<and> text_of format_2f (Error_loading (str e)) \<noteq> []"
  using assms by (simp add: verify_load_error cross_mark_def)

text \<open>
  Scenario 4 of the specification: the empty AlexNet file of \<^const>\<open>sample_fs\<close>.
\<close>

theorem load_failure_result_witness:
  "sample_fs ''alexnet/alexnet_weights.pth''
     = Some (Weight_file 0 (Inl (Exception ''Ran out of input'')))
   \<and> verify_model_file sample_fs ''alexnet/alexnet_weights.pth'' ''AlexNet'' =
       ([Print Blank, Print Rule, Print (Verifying ''AlexNet''), Print Rule,
         Os_path_exists ''alexnet/alexnet_weights.pth'',
         Os_path_getsize ''alexnet/alexnet_weights.pth'',
         Print (File_path ''alexnet/alexnet_weights.pth''), Print (Size_MB 0),
         Torch_load ''alexnet/alexnet_weights.pth'',
         Print (Error_loading ''Ran out of input'')], Inr False)"
  using load_failure_result [of sample_fs "''alexnet/alexnet_weights.pth''"
      "Weight_file 0 (Inl (Exception ''Ran out of input''))" "Exception ''Ran out of input''"
      "''AlexNet''"]
  by (simp add: sample_fs_def file_size_mb_def)

text \<open>
  \<^bold>\<open>C8\<close>: when the file exists and \<^verbatim>\<open>torch.load\<close> returns something that is not a
  \<^verbatim>\<open>dict\<close>, the function prints ``File is loadable'', then ``Checkpoint is not a state
  dictionary'', and returns \<^verbatim>\<open>False\<close>; no number of layers and no layer name is
  printed.
\<close>

theorem not_a_dict_result:
  assumes "fs filepath = Some f" and "load f = Inr obj" and "\<forall>items. obj \<noteq> Dict items"
  shows "verify_model_file fs filepath model_name =
           ([Print Blank, Print Rule, Print (Verifying model_name), Print Rule,
             Os_path_exists filepath, Os_path_getsize filepath, Print (File_path filepath),
             Print (Size_MB (file_size_mb (getsize f))),
             Torch_load filepath, Print File_is_loadable, Print Not_state_dict], Inr False)
         \<and> text_of format_2f Not_state_dict
             = warning_sign @ ''  Checkpoint is not a state dictionary''"
  using assms by (simp add: verify_not_dict)

text \<open>
  Scenario 5 of the specification: the ViT file of \<^const>\<open>sample_fs\<close>, a single
  tensor.
\<close>

theorem not_a_dict_result_witness:
  "sample_fs ''vit/vit_weights.pth'' = Some (Weight_file 1024 (Inr (Tensor ())))
   \<and> (\<forall>items. Tensor () \<noteq> Dict items)
   \<and> verify_model_file sample_fs ''vit/vit_weights.pth'' ''ViT'' =
       ([Print Blank, Print Rule, Print (Verifying ''ViT''), Print Rule,
         Os_path_exists ''vit/vit_weights.pth'', Os_path_getsize ''vit/vit_weights.pth'',
         Print (File_path ''vit/vit_weights.pth''), Print (Size_MB (1 / 1024)),
         Torch_load ''vit/vit_weights.pth'', Print File_is_loadable, Print Not_state_dict],
        Inr False)"
  using not_a_dict_result [of sample_fs "''vit/vit_weights.pth''"
      "Weight_file 1024 (Inr (Tensor ()))" "Tensor ()" "''ViT''"]
  by (simp add: sample_fs_def file_size_mb_def)

subsection \<open>Counting is independent of the order\<close>

text \<open>
  A permutation to run the next theorem on.
\<close>

lemma perm_example:
  "mset [(''ViT'', False), (''VGG16'', True), (''ResNet18'', True)]
     = mset [(''VGG16'', True), (''ResNet18'', True), (''ViT'', False)]"
  by (simp add: add_mset_commute)

text \<open>
  \<^bold>\<open>C9\<close>: two sequences of results that are permutations of each other have the
  same \<open>valid_count\<close> and the same \<open>total_count\<close> (and so the same readiness).
\<close>

theorem counts_of_a_permutation:
  assumes "mset results' = mset results"
  shows "valid_count results' = valid_count results
         \<and> total_count results' = total_count results
         \<and> readiness results' = readiness results"
proof -
  have v: "valid_count results' = valid_count results"
    unfolding valid_count_mset assms ..
  have "length results' = length results"
    using assms by (rule mset_eq_length)
  then have t: "total_count results' = total_count results"
    by (simp add: total_count_def)
  from v t show ?thesis by (simp add: readiness_def)
qed

text \<open>
  Three results, two of them valid, in two orders.
\<close>

theorem counts_of_a_permutation_witness:
  "mset [(''ViT'', False), (''VGG16'', True), (''ResNet18'', True)]
     = mset [(''VGG16'', True), (''ResNet18'', True), (''ViT'', False)]
   \<and> valid_count [(''ViT'', False), (''VGG16'', True), (''ResNet18'', True)] = 2
   \<and> valid_count [(''VGG16'', True), (''ResNet18'', True), (''ViT'', False)] = 2
   \<and> total_count [(''ViT'', False), (''VGG16'', True), (''ResNet18'', True)] = 3
   \<and> total_count [(''VGG16'', True), (''ResNet18'', True), (''ViT'', False)] = 3"
  using counts_of_a_permutation [OF perm_example] perm_example
  by (simp add: valid_count_def total_count_def)

subsection \<open>The bounds of the size tests\<close>

text \<open>
  \<^bold>\<open>C10\<close>: for an existing file that loads to a \<^verbatim>\<open>dict\<close>, the size line of a
  VGG16 file is ``File size appropriate'' if and only if the size is strictly above 400 MB
  (that is, above 419430400 bytes), with no upper bound; for the four other labels it is so
  if and only if the size is strictly between the two bounds.
\<close>

theorem size_tests_are_strict:
  assumes "fs filepath = Some f" and "load f = Inr (Dict items)"
  shows "(last (fst (verify_model_file fs filepath ''VGG16'')) = Print (Size_appropriate ''VGG16''))
           = (400 < file_size_mb (getsize f))
       \<and> (last (fst (verify_model_file fs filepath ''ResNet18'')) = Print (Size_appropriate ''ResNet18''))
           = (40 < file_size_mb (getsize f) \<and> file_size_mb (getsize f) < 60)
       \<and> (last (fst (verify_model_file fs filepath ''MobileNetV2'')) = Print (Size_appropriate ''MobileNetV2''))
           = (10 < file_size_mb (getsize f) \<and> file_size_mb (getsize f) < 20)
       \<and> (last (fst (verify_model_file fs filepath ''AlexNet'')) = Print (Size_appropriate ''AlexNet''))
           = (200 < file_size_mb (getsize f) \<and> file_size_mb (getsize f) < 250)
       \<and> (last (fst (verify_model_file fs filepath ''ViT'')) = Print (Size_appropriate ''ViT''))
           = (300 < file_size_mb (getsize f) \<and> file_size_mb (getsize f) < 400)
       \<and> (400 < file_size_mb (getsize f)) = (419430400 < getsize f)"
proof -
  have v: "\<And>model_name. last (fst (verify_model_file fs filepath model_name))
             = Print (size_verdict model_name (file_size_mb (getsize f)))"
    using assms by (rule verify_dict_last)
  have b: "(400 < file_size_mb (getsize f)) = (419430400 < getsize f)"
  proof -
    have "(400 < file_size_mb (getsize f)) = ((419430400::rat) < of_nat (getsize f))"
      by (simp add: file_size_mb_def)
    also have "\<dots> = (419430400 < getsize f)"
      by (metis of_nat_less_iff of_nat_numeral)
    finally show ?thesis .
  qed
  show ?thesis
    unfolding v using b by (simp add: size_verdict_def)
qed

text \<open>
  A VGG16 checkpoint of exactly 400 MB is not above the bound.
\<close>

theorem size_tests_are_strict_witness:
  "sample_fs ''vgg16/vgg16_weights.pth''
     = Some (Weight_file 419430400 (Inr (Dict [(''features.0.weight'', ())])))
   \<and> file_size_mb 419430400 = 400
   \<and> last (fst (verify_model_file sample_fs ''vgg16/vgg16_weights.pth'' ''VGG16''))
       = Print (Size_unusual ''VGG16'')
   \<and> last (fst (verify_model_file sample_fs ''vgg16/vgg16_weights.pth'' ''VGG16''))
       \<noteq> Print (Size_appropriate ''VGG16'')"
  using size_tests_are_strict [of sample_fs "''vgg16/vgg16_weights.pth''"
      "Weight_file 419430400 (Inr (Dict [(''features.0.weight'', ())]))"
      "[(''features.0.weight'', ())]"]
  by (simp add: sample_fs_def file_size_mb_def verify_defs size_verdict_def)

end
